theory Spec2Isabelle
  imports Complex_Main "HOL-Library.Sublist"
begin

section \<open>Python values used by the retrieval engine\<close>

text \<open>
  The engine of \<^verbatim>\<open>rag_engine.py\<close> is embedded function by function. Python strings are
  \<open>string\<close>s whose characters are read as code points below 256; Python integers are
  \<open>int\<close>; the distances of the vector index are floating-point numbers in the source and
  are compared here as \<open>real\<close>s (only their order is used). An exception that reaches the
  caller is the \<open>Inl\<close> side of a sum.
\<close>

datatype exn =
    ValueError string
  | IndexError string
  | Exception string

text \<open>\<^verbatim>\<open>str(e)\<close> of an exception.\<close>

fun str_exn :: "exn \<Rightarrow> string" where
  "str_exn (ValueError m) = m"
| "str_exn (IndexError m) = m"
| "str_exn (Exception m) = m"

subsection \<open>\<^verbatim>\<open>str.split()\<close>, \<^verbatim>\<open>str.strip()\<close>, \<^verbatim>\<open>str.join\<close>\<close>

text \<open>
  \<^verbatim>\<open>str.isspace\<close> on one character: tab, line feed, vertical tab, form feed, carriage
  return, the separators 0x1C to 0x1F, space, next line (0x85) and no-break space (0xA0).
\<close>

definition isspace :: "char \<Rightarrow> bool" where
  "isspace c \<longleftrightarrow> (of_char c :: nat) \<in> {9, 10, 11, 12, 13, 28, 29, 30, 31, 32, 133, 160}"

text \<open>
  \<^verbatim>\<open>text.split()\<close> with no separator: the maximal runs of non-whitespace characters, in
  order. The first argument is the word read so far.
\<close>

fun split_from :: "string \<Rightarrow> string \<Rightarrow> string list" where
  "split_from w [] = (if w = [] then [] else [w])"
| "split_from w (c # cs) =
     (if isspace c then (if w = [] then split_from [] cs else w # split_from [] cs)
      else split_from (w @ [c]) cs)"

definition py_split :: "string \<Rightarrow> string list" where
  "py_split s = split_from [] s"

definition py_strip :: "string \<Rightarrow> string" where
  "py_strip s = rev (dropWhile isspace (rev (dropWhile isspace s)))"

fun py_join :: "string \<Rightarrow> string list \<Rightarrow> string" where
  "py_join sep [] = []"
| "py_join sep [x] = x"
| "py_join sep (x # y # ys) = x @ sep @ py_join sep (y # ys)"

subsection \<open>\<^verbatim>\<open>range\<close> and list slices\<close>

text \<open>
  \<^verbatim>\<open>range(start, stop, step)\<close>: a zero step raises \<^verbatim>\<open>ValueError\<close>, a positive step counts
  up while below \<open>stop\<close>, a negative step counts down while above \<open>stop\<close>.
\<close>

function range_up :: "int \<Rightarrow> int \<Rightarrow> int \<Rightarrow> int list" where
  "range_up i stop step =
     (if 0 < step \<and> i < stop then i # range_up (i + step) stop step else [])"
  by pat_completeness auto
termination
  by (relation "measure (\<lambda>(i, stop, step). nat (stop - i))") auto

function range_down :: "int \<Rightarrow> int \<Rightarrow> int \<Rightarrow> int list" where
  "range_down i stop step =
     (if step < 0 \<and> stop < i then i # range_down (i + step) stop step else [])"
  by pat_completeness auto
termination
  by (relation "measure (\<lambda>(i, stop, step). nat (i - stop))") auto

definition py_range :: "int \<Rightarrow> int \<Rightarrow> int \<Rightarrow> exn + int list" where
  "py_range start stop step =
     (if step = 0 then Inl (ValueError ''range() arg 3 must not be zero'')
      else if 0 < step then Inr (range_up start stop step)
      else Inr (range_down start stop step))"

text \<open>
  A slice bound of a list of length \<open>n\<close>: a negative bound counts from the end, and every
  bound is clipped to \<open>0 .. n\<close>.
\<close>

definition slice_bound :: "nat \<Rightarrow> int \<Rightarrow> nat" where
  "slice_bound n i = (if i < 0 then nat (max 0 (int n + i)) else min n (nat i))"

text \<open>\<^verbatim>\<open>xs[i:j]\<close>.\<close>

definition py_slice :: "'a list \<Rightarrow> int \<Rightarrow> int \<Rightarrow> 'a list" where
  "py_slice xs i j =
     (let a = slice_bound (length xs) i; b = slice_bound (length xs) j
      in take (b - a) (drop a xs))"

section \<open>The chunker\<close>

text \<open>
  \<^verbatim>\<open>RAGEngine.chunk_text\<close>. The body of the \<^verbatim>\<open>for\<close> loop runs once for each element of
  the range, with the list \<open>chunks\<close> built so far:
  \<^verbatim>\<open>
    chunk = ' '.join(words[i:i + chunk_size])
    if chunk.strip():
        chunks.append(chunk.strip())
  \<close>
\<close>

fun chunk_loop :: "string list \<Rightarrow> int \<Rightarrow> string list \<Rightarrow> int list \<Rightarrow> string list" where
  "chunk_loop words chunk_size chunks [] = chunks"
| "chunk_loop words chunk_size chunks (i # is) =
     (let chunk = py_join '' '' (py_slice words i (i + chunk_size))
      in chunk_loop words chunk_size
           (if py_strip chunk \<noteq> [] then chunks @ [py_strip chunk] else chunks) is)"

definition chunk_text :: "string \<Rightarrow> int \<Rightarrow> int \<Rightarrow> exn + string list" where
  "chunk_text text chunk_size overlap =
     (let words = py_split text
      in case py_range 0 (int (length words)) (chunk_size - overlap) of
           Inl e \<Rightarrow> Inl e
         | Inr is \<Rightarrow> Inr (chunk_loop words chunk_size [] is))"

text \<open>
  The words that \<^verbatim>\<open>split()\<close> returns are non-empty and free of whitespace.
\<close>

definition wordlike :: "string list \<Rightarrow> bool" where
  "wordlike ws \<longleftrightarrow> (\<forall>w \<in> set ws. w \<noteq> [] \<and> (\<forall>c \<in> set w. \<not> isspace c))"

text \<open>Texts of 451, 460 and 1000 words, on which the claims are evaluated.\<close>

definition text_451 :: string where
  "text_451 = py_join '' '' (replicate 451 ''w'')"

definition text_460 :: string where
  "text_460 = py_join '' '' (replicate 460 ''w'')"

definition text_1000 :: string where
  "text_1000 = py_join '' '' (replicate 1000 ''w'')"

section \<open>The engine\<close>

subsection \<open>Records of the engine\<close>

text \<open>
  The dictionaries of the source have fixed keys and are records here. A chunk record is
  what \<^verbatim>\<open>add_documents\<close> appends to \<^verbatim>\<open>self.chunks\<close>; a retrieved chunk is its copy with
  the key \<^verbatim>\<open>similarity_score\<close> added; a document is an element of the argument of
  \<^verbatim>\<open>add_documents\<close>; a source and a response are what \<^verbatim>\<open>query\<close> builds.
\<close>

type_synonym vector = "real list"

record chunk =
  "text" :: string
  filename :: string
  chunk_id :: int

record retrieved_chunk = chunk +
  similarity_score :: real

record document =
  doc_text :: string
  doc_filename :: string

record source =
  source_filename :: string
  text_snippet :: string
  source_similarity_score :: real

record response =
  answer :: "string option"
  sources :: "source list"
  num_sources :: nat

subsection \<open>Collaborators\<close>

text \<open>
  The embedding model, the FAISS index with its serialiser, the completion service and the
  file system are outside the repository. Their results are parameters of the model. A value of
  \<^typ>\<open>exn\<close> stands for an instance of \<^verbatim>\<open>Exception\<close>, which is what \<^verbatim>\<open>except Exception\<close>
  catches.

  The completion call either raises or returns an object whose
  \<^verbatim>\<open>choices[i].message.content\<close> are listed; a content may be \<^verbatim>\<open>None\<close>.
\<close>

datatype completion =
    Raises exn
  | Choices "string option list"

text \<open>
  Writing a file either completes, or raises after the first \<open>n\<close> characters have reached
  the file, or raises before the file is opened, which leaves the file as it was.
\<close>

datatype outcome =
    Complete
  | Cut nat exn
  | Refused exn

record env =
  encode :: "string list \<Rightarrow> exn + vector list"
  index_add_error :: "vector list \<Rightarrow> exn option"
  index_search :: "vector list \<Rightarrow> vector list \<Rightarrow> int \<Rightarrow> exn + (real list \<times> int list)"
  create_completion :: "string \<Rightarrow> string \<Rightarrow> completion"
  round3 :: "real \<Rightarrow> real"
  write_index :: "vector list \<Rightarrow> string"
  read_index :: "string \<Rightarrow> exn + vector list"
  write_file :: "string \<Rightarrow> string \<Rightarrow> outcome"

text \<open>
  \<^item> \<open>encode env texts\<close> is \<^verbatim>\<open>embedding_model.encode(texts)\<close>.
  \<^item> \<open>index_add_error env vectors\<close> is the exception that \<^verbatim>\<open>index.add\<close> raises for this
    batch, if it raises; otherwise the vectors are appended to the index.
  \<^item> \<open>index_search env stored queries k\<close> is \<^verbatim>\<open>index.search(queries, k)\<close> on an index
    holding \<open>stored\<close>: the rows \<^verbatim>\<open>distances[0]\<close> and \<^verbatim>\<open>indices[0]\<close>.
  \<^item> \<open>create_completion env system user\<close> is \<^verbatim>\<open>chat.completions.create\<close> with the two
    message contents.
  \<^item> \<open>round3 env x\<close> is \<^verbatim>\<open>round(x, 3)\<close> on a float.
  \<^item> \<open>write_index env vectors\<close> is the content that \<^verbatim>\<open>faiss.write_index\<close> gives to the file
    of an index holding \<open>vectors\<close>, and \<open>read_index env bytes\<close> is \<^verbatim>\<open>faiss.read_index\<close> on a
    file of this content. The format is the library's own and is not modelled.
  \<^item> \<open>write_file env path content\<close> is what happens when \<open>content\<close> is written to the file
    \<open>path\<close>.
\<close>

text \<open>The calls made to the collaborators are logged, in order.\<close>

datatype call =
    EncodeCall "string list"
  | IndexAddCall "vector list"
  | IndexSearchCall "vector list" int
  | CompletionCall string string

text \<open>
  The state: the fields \<^verbatim>\<open>self.index\<close> (the vectors it stores, in insertion order) and
  \<^verbatim>\<open>self.chunks\<close>, the content of the files \<^verbatim>\<open>vector_store/faiss.index\<close> and
  \<^verbatim>\<open>vector_store/chunks.json\<close> (\<open>None\<close> when the file does not exist), and the log of calls.
\<close>

record state =
  index :: "vector list"
  chunks :: "chunk list"
  index_file :: "string option"
  chunks_file :: "string option"
  calls :: "call list"

fun is_completion_call :: "call \<Rightarrow> bool" where
  "is_completion_call (CompletionCall system user) = True"
| "is_completion_call c = False"

definition log_call :: "call \<Rightarrow> state \<Rightarrow> state" where
  "log_call c s = s\<lparr>calls := calls s @ [c]\<rparr>"

subsection \<open>The serialiser of the chunk records\<close>

text \<open>
  \<^verbatim>\<open>json.dump(self.chunks, f, ensure_ascii=False, indent=2)\<close> on a list of chunk records.
  A string is written between double quotes; the double quote, the backslash and the
  characters below 0x20 are escaped, the latter by their short form or by \<^verbatim>\<open>\u00XX\<close> with
  lower-case hexadecimal digits; every other character is written as it is. The file is
  opened as UTF-8 text, and its content is modelled as the characters written.
\<close>

definition hex_digit :: "nat \<Rightarrow> char" where
  "hex_digit n = (if n < 10 then char_of (48 + n) else char_of (87 + n))"

definition escape_char :: "char \<Rightarrow> string" where
  "escape_char c =
     (if c = CHR 0x22 then [CHR 0x5C, CHR 0x22]
      else if c = CHR 0x5C then [CHR 0x5C, CHR 0x5C]
      else if c = CHR 0x0A then [CHR 0x5C, CHR ''n'']
      else if c = CHR 0x0D then [CHR 0x5C, CHR ''r'']
      else if c = CHR 0x09 then [CHR 0x5C, CHR ''t'']
      else if c = CHR 0x08 then [CHR 0x5C, CHR ''b'']
      else if c = CHR 0x0C then [CHR 0x5C, CHR ''f'']
      else if (of_char c :: nat) < 32 then
        [CHR 0x5C, CHR ''u'', CHR ''0'', CHR ''0'',
         hex_digit (of_char c div 16), hex_digit (of_char c mod 16)]
      else [c])"

definition encode_basestring :: "string \<Rightarrow> string" where
  "encode_basestring s = CHR 0x22 # concat (map escape_char s) @ [CHR 0x22]"

text \<open>\<^verbatim>\<open>repr\<close> of an integer: its decimal digits, after a minus sign when it is negative.\<close>

function repr_nat :: "nat \<Rightarrow> string" where
  "repr_nat n = (if n < 10 then [char_of (48 + n)]
                 else repr_nat (n div 10) @ [char_of (48 + n mod 10)])"
  by pat_completeness auto
termination
  by (relation "measure id") auto

definition repr_int :: "int \<Rightarrow> string" where
  "repr_int i = (if i < 0 then CHR ''-'' # repr_nat (nat (- i)) else repr_nat (nat i))"

text \<open>
  A record is written as an object at the first level of indentation, with its keys in
  the order of insertion: \<^verbatim>\<open>text\<close>, \<^verbatim>\<open>filename\<close>, \<^verbatim>\<open>chunk_id\<close>.
\<close>

definition encode_chunk :: "chunk \<Rightarrow> string" where
  "encode_chunk c =
     ''{\<newline>    '' @ encode_basestring ''text'' @ '': '' @ encode_basestring (text c) @
     '',\<newline>    '' @ encode_basestring ''filename'' @ '': '' @ encode_basestring (filename c) @
     '',\<newline>    '' @ encode_basestring ''chunk_id'' @ '': '' @ repr_int (chunk_id c) @
     ''\<newline>  }''"

definition json_dumps :: "chunk list \<Rightarrow> string" where
  "json_dumps cs =
     (if cs = [] then ''[]''
      else ''[\<newline>  '' @ py_join '',\<newline>  '' (map encode_chunk cs) @ ''\<newline>]'')"

subsection \<open>The parser of the chunk records\<close>

text \<open>
  \<^verbatim>\<open>json.load\<close>, on the files that hold a list of chunk records: an array of objects whose
  members are strings and integers, with any JSON white space between the tokens. The
  text is first cut into tokens, one character at a time.
\<close>

datatype token =
    TLBracket | TRBracket | TLBrace | TRBrace | TColon | TComma
  | TStr string
  | TInt int

datatype lex_state =
    Idle
  | InStr string
  | Esc string
  | Uni string string
  | Num string

definition is_digit :: "char \<Rightarrow> bool" where
  "is_digit c \<longleftrightarrow> 48 \<le> (of_char c :: nat) \<and> (of_char c :: nat) \<le> 57"






text \<open>A character met between two tokens: white space, a punctuation token, or the start
  of a string or of a number.\<close>

definition start :: "token list \<Rightarrow> char \<Rightarrow> (lex_state \<times> token list) option" where
  "start toks c =
     (if c = CHR '' '' \<or> c = CHR 0x09 \<or> c = CHR 0x0A \<or> c = CHR 0x0D then Some (Idle, toks)
      else if c = CHR ''['' then Some (Idle, toks @ [TLBracket])
      else if c = CHR '']'' then Some (Idle, toks @ [TRBracket])
      else if c = CHR ''{'' then Some (Idle, toks @ [TLBrace])
      else if c = CHR ''}'' then Some (Idle, toks @ [TRBrace])
      else if c = CHR '':'' then Some (Idle, toks @ [TColon])
      else if c = CHR '','' then Some (Idle, toks @ [TComma])
      else if c = CHR 0x22 then Some (InStr [], toks)
      else if c = CHR ''-'' \<or> is_digit c then Some (Num [c], toks)
      else None)"











subsection \<open>Persistence\<close>

text \<open>The two paths of \<^verbatim>\<open>__init__\<close>.\<close>

definition index_path :: string where
  "index_path = ''vector_store/faiss.index''"

definition chunks_path :: string where
  "chunks_path = ''vector_store/chunks.json''"

text \<open>The content of a file after a write, and the exception that the write raised.\<close>

definition file_after :: "string option \<Rightarrow> string \<Rightarrow> outcome \<Rightarrow> string option" where
  "file_after old content r =
     (case r of Complete \<Rightarrow> Some content | Cut n e \<Rightarrow> Some (take n content) | Refused e \<Rightarrow> old)"

definition raised :: "outcome \<Rightarrow> exn option" where
  "raised r = (case r of Complete \<Rightarrow> None | Cut n e \<Rightarrow> Some e | Refused e \<Rightarrow> Some e)"

text \<open>
  \<^verbatim>\<open>RAGEngine.save_index\<close>: the index file is written first, then the chunk records. An
  exception of the first write leaves the second file untouched; an exception of the second
  leaves the new index file beside what the second write left. The outcome \<open>Cut\<close> of the
  second write stands for every exception inside the \<^verbatim>\<open>with\<close> block, raised by the file or
  by \<^verbatim>\<open>json.dump\<close> itself (which, on the characters below 256 of this model, always finds
  an encoding): the file is closed with what had been written.
\<close>

definition save_index :: "env \<Rightarrow> state \<Rightarrow> (exn + unit) \<times> state" where
  "save_index env s =
     (let index_bytes = write_index env (index s);
          r1 = write_file env index_path index_bytes;
          s1 = s\<lparr>index_file := file_after (index_file s) index_bytes r1\<rparr>
      in case raised r1 of
           Some e \<Rightarrow> (Inl e, s1)
         | None \<Rightarrow>
             (let dumped = json_dumps (chunks s1);
                  r2 = write_file env chunks_path dumped;
                  s2 = s1\<lparr>chunks_file := file_after (chunks_file s1) dumped r2\<rparr>
              in case raised r2 of
                   Some e \<Rightarrow> (Inl e, s2)
                 | None \<Rightarrow> (Inr (), s2)))"




subsection \<open>Ingestion\<close>

text \<open>
  The inner loop of \<^verbatim>\<open>add_documents\<close>:
  \<^verbatim>\<open>
    for i, chunk in enumerate(text_chunks):
        self.chunks.append({'text': chunk, 'filename': filename,
                            'chunk_id': len(self.chunks)})
  \<close>
\<close>

fun store_chunks :: "chunk list \<Rightarrow> string \<Rightarrow> string list \<Rightarrow> chunk list" where
  "store_chunks cs fname [] = cs"
| "store_chunks cs fname (c # rest) =
     store_chunks (cs @ [\<lparr>text = c, filename = fname, chunk_id = int (length cs)\<rparr>]) fname rest"

text \<open>
  The outer loop of \<^verbatim>\<open>add_documents\<close>. An exception leaves the state as the documents
  before it made it.
\<close>

fun add_documents_loop :: "env \<Rightarrow> state \<Rightarrow> document list \<Rightarrow> (exn + unit) \<times> state" where
  "add_documents_loop env s [] = (Inr (), s)"
| "add_documents_loop env s (doc # docs) =
     (case chunk_text (doc_text doc) 500 50 of
        Inl e \<Rightarrow> (Inl e, s)
      | Inr text_chunks \<Rightarrow>
          (let s1 = log_call (EncodeCall text_chunks) s
           in case encode env text_chunks of
                Inl e \<Rightarrow> (Inl e, s1)
              | Inr embeddings \<Rightarrow>
                  (let s2 = log_call (IndexAddCall embeddings) s1
                   in case index_add_error env embeddings of
                        Some e \<Rightarrow> (Inl e, s2)
                      | None \<Rightarrow>
                          add_documents_loop env
                            (s2\<lparr>index := index s2 @ embeddings,
                                chunks := store_chunks (chunks s2) (doc_filename doc) text_chunks\<rparr>)
                            docs)))"

text \<open>\<^verbatim>\<open>RAGEngine.add_documents\<close>: the loop, then \<^verbatim>\<open>save_index\<close>.\<close>

definition add_documents :: "env \<Rightarrow> state \<Rightarrow> document list \<Rightarrow> (exn + unit) \<times> state" where
  "add_documents env s documents =
     (case add_documents_loop env s documents of
        (Inl e, s') \<Rightarrow> (Inl e, s')
      | (Inr u, s') \<Rightarrow> save_index env s')"

subsection \<open>Retrieval\<close>

text \<open>\<^verbatim>\<open>xs[i]\<close>: a negative index counts from the end; out of range raises.\<close>

definition py_index :: "'a list \<Rightarrow> int \<Rightarrow> exn + 'a" where
  "py_index xs i =
     (if 0 \<le> i \<and> i < int (length xs) then Inr (xs ! nat i)
      else if i < 0 \<and> - int (length xs) \<le> i then Inr (xs ! nat (int (length xs) + i))
      else Inl (IndexError ''list index out of range''))"

text \<open>\<^verbatim>\<open>chunk_data = self.chunks[idx].copy(); chunk_data['similarity_score'] = float(dist)\<close>\<close>

definition with_score :: "chunk \<Rightarrow> real \<Rightarrow> retrieved_chunk" where
  "with_score c distance =
     \<lparr>text = text c, filename = filename c, chunk_id = chunk_id c, similarity_score = distance\<rparr>"

text \<open>
  The loop of \<^verbatim>\<open>retrieve_relevant_chunks\<close> over \<^verbatim>\<open>zip(distances[0], indices[0])\<close>, with the
  list \<open>relevant_chunks\<close> built so far.
\<close>

fun filter_loop ::
  "chunk list \<Rightarrow> real \<Rightarrow> retrieved_chunk list \<Rightarrow> (real \<times> int) list \<Rightarrow> exn + retrieved_chunk list"
where
  "filter_loop cs threshold relevant_chunks [] = Inr relevant_chunks"
| "filter_loop cs threshold relevant_chunks ((distance, idx) # rest) =
     (if distance < threshold \<and> idx < int (length cs) then
        (case py_index cs idx of
           Inl e \<Rightarrow> Inl e
         | Inr c \<Rightarrow> filter_loop cs threshold (relevant_chunks @ [with_score c distance]) rest)
      else filter_loop cs threshold relevant_chunks rest)"

text \<open>\<^verbatim>\<open>RAGEngine.retrieve_relevant_chunks\<close>.\<close>

definition retrieve_relevant_chunks ::
  "env \<Rightarrow> state \<Rightarrow> string \<Rightarrow> int \<Rightarrow> real \<Rightarrow> (exn + retrieved_chunk list) \<times> state"
where
  "retrieve_relevant_chunks env s query top_k similarity_threshold =
     (if length (chunks s) = 0 then (Inr [], s)
      else
        (let s1 = log_call (EncodeCall [query]) s
         in case encode env [query] of
              Inl e \<Rightarrow> (Inl e, s1)
            | Inr query_embedding \<Rightarrow>
                (let s2 = log_call (IndexSearchCall query_embedding top_k) s1
                 in case index_search env (index s2) query_embedding top_k of
                      Inl e \<Rightarrow> (Inl e, s2)
                    | Inr (distances, indices) \<Rightarrow>
                        (filter_loop (chunks s2) similarity_threshold [] (zip distances indices),
                         s2))))"

subsection \<open>Answer composition\<close>

definition refusal :: string where
  \<open>refusal =
     ''I don't have enough information in the uploaded documents to answer this question.''\<close>

definition system_content :: string where
  \<open>system_content =
     ''You are a helpful assistant that answers questions strictly based on provided context. Never make up information.''\<close>

definition build_context :: "retrieved_chunk list \<Rightarrow> string" where
  \<open>build_context context_chunks =
     py_join ''\<newline>\<newline>''
       (map (\<lambda>chunk. ''[From '' @ filename chunk @ '']\<newline>'' @ text chunk) context_chunks)\<close>

definition build_prompt :: "string \<Rightarrow> string \<Rightarrow> string" where
  \<open>build_prompt context query =
     ''You are a helpful assistant that answers questions based ONLY on the provided context. \<newline>'' @
     ''If the answer cannot be found in the context, you must respond with: "I don't have enough information in the uploaded documents."\<newline>'' @
     ''\<newline>Context:\<newline>'' @ context @
     ''\<newline>\<newline>Question: '' @ query @
     ''\<newline>\<newline>Answer:''\<close>

text \<open>
  \<^verbatim>\<open>RAGEngine.generate_answer\<close>. The \<^verbatim>\<open>try\<close> block holds the call and the read of
  \<^verbatim>\<open>choices[0].message.content\<close>; the handler returns the message of the exception after
  a fixed prefix.
\<close>

definition generate_answer ::
  "env \<Rightarrow> state \<Rightarrow> string \<Rightarrow> retrieved_chunk list \<Rightarrow> string option \<times> state"
where
  "generate_answer env s query context_chunks =
     (if context_chunks = [] then (Some refusal, s)
      else
        (let prompt = build_prompt (build_context context_chunks) query;
             s1 = log_call (CompletionCall system_content prompt) s
         in case create_completion env system_content prompt of
              Raises e \<Rightarrow> (Some (''Error generating answer: '' @ str_exn e), s1)
            | Choices choices \<Rightarrow>
                (case py_index choices 0 of
                   Inl e \<Rightarrow> (Some (''Error generating answer: '' @ str_exn e), s1)
                 | Inr content \<Rightarrow> (content, s1))))"

text \<open>One element of \<^verbatim>\<open>sources\<close> in \<^verbatim>\<open>query\<close>.\<close>

definition source_of :: "env \<Rightarrow> retrieved_chunk \<Rightarrow> source" where
  "source_of env chunk =
     \<lparr>source_filename = filename chunk,
      text_snippet = (if length (text chunk) > 200 then take 200 (text chunk) @ ''...''
                      else text chunk),
      source_similarity_score = round3 env (similarity_score chunk)\<rparr>"

text \<open>\<^verbatim>\<open>RAGEngine.query\<close>; the threshold is the default \<^verbatim>\<open>1.5\<close> of the retrieval.\<close>

definition query :: "env \<Rightarrow> state \<Rightarrow> string \<Rightarrow> (exn + response) \<times> state" where
  "query env s question =
     (case retrieve_relevant_chunks env s question 5 (3 / 2) of
        (Inl e, s1) \<Rightarrow> (Inl e, s1)
      | (Inr relevant_chunks, s1) \<Rightarrow>
          (let (ans, s2) = generate_answer env s1 question relevant_chunks;
               srcs = map (source_of env) relevant_chunks
           in (Inr \<lparr>answer = ans, sources = srcs, num_sources = length srcs\<rparr>, s2)))"

subsection \<open>The invariant of the index and the chunk store\<close>

text \<open>
  The index holds one vector for each chunk record, and the record at position \<open>i\<close> has
  \<open>chunk_id = i\<close>. The embedder is expected to return one vector for each text.
\<close>

definition engine_inv :: "state \<Rightarrow> bool" where
  "engine_inv s \<longleftrightarrow>
     length (index s) = length (chunks s) \<and>
     map chunk_id (chunks s) = map int [0 ..< length (chunks s)]"


subsection \<open>A concrete environment and concrete states\<close>

text \<open>
  The largest finite 32-bit float: the distance that a FAISS flat index reports, with
  index \<open>-1\<close>, for a neighbour that does not exist.
\<close>

definition FLT_MAX :: real where
  "FLT_MAX = 340282346638528859811704183484516925440"

definition chunk_a :: chunk where
  "chunk_a = \<lparr>text = ''alpha beta'', filename = ''a.txt'', chunk_id = 0\<rparr>"

definition doc_a :: document where
  "doc_a = \<lparr>doc_text = ''alpha  beta '', doc_filename = ''a.txt''\<rparr>"

text \<open>
  An environment for evaluating the engine: the embedder returns one vector for each text,
  the index accepts every batch and answers a search for five neighbours as a flat index
  holding one vector does (one neighbour, four missing ones), the completion service
  times out, the index serialiser knows the empty index and the index of one vector, and
  every write completes.
\<close>

definition demo_env :: env where
  "demo_env =
     \<lparr>encode = (\<lambda>texts. Inr (map (\<lambda>t. [real (length t)]) texts)),
      index_add_error = (\<lambda>vectors. None),
      index_search = (\<lambda>stored queries k.
         Inr ([1 / 5, FLT_MAX, FLT_MAX, FLT_MAX, FLT_MAX], [0, - 1, - 1, - 1, - 1])),
      create_completion = (\<lambda>system user. Raises (Exception ''Request timed out.'')),
      round3 = (\<lambda>x. x),
      write_index = (\<lambda>vectors. if vectors = [] then ''IxF2 0'' else ''IxF2 1''),
      read_index = (\<lambda>bytes. if bytes = ''IxF2 0'' then Inr []
                            else if bytes = ''IxF2 1'' then Inr [[10]]
                            else Inl (Exception ''Error in faiss::read_index'')),
      write_file = (\<lambda>path content. Complete)\<rparr>"

definition empty_state :: state where
  "empty_state =
     \<lparr>index = [], chunks = [], index_file = None, chunks_file = None, calls = []\<rparr>"

definition one_chunk_state :: state where
  "one_chunk_state =
     \<lparr>index = [[10]], chunks = [chunk_a], index_file = Some ''IxF2 1'',
      chunks_file = Some (json_dumps [chunk_a]),
      calls = [EncodeCall [''alpha beta''], IndexAddCall [[10]]]\<rparr>"

text \<open>
  More environments: one in which every collaborator fails, and the demonstration
  environment with a completion service that returns a response without any choice, with
  one that returns a choice without content, with the only neighbour at distance 2, and
  with a disk that is full after four characters of \<^verbatim>\<open>chunks.json\<close>.
\<close>

definition failing_env :: env where
  "failing_env =
     \<lparr>encode = (\<lambda>texts. Inl (Exception ''model not loaded'')),
      index_add_error = (\<lambda>vectors. Some (Exception ''index unavailable'')),
      index_search = (\<lambda>stored queries k. Inl (Exception ''index unavailable'')),
      create_completion = (\<lambda>system user. Raises (Exception ''Connection error.'')),
      round3 = (\<lambda>x. x),
      write_index = (\<lambda>vectors. []),
      read_index = (\<lambda>bytes. Inl (Exception ''could not read index'')),
      write_file = (\<lambda>path content. Refused (Exception ''[Errno 13] Permission denied''))\<rparr>"

definition no_choice_env :: env where
  "no_choice_env = demo_env\<lparr>create_completion := (\<lambda>system user. Choices [])\<rparr>"

definition null_content_env :: env where
  "null_content_env = demo_env\<lparr>create_completion := (\<lambda>system user. Choices [None])\<rparr>"

definition disk_full_env :: env where
  "disk_full_env = demo_env\<lparr>write_file := (\<lambda>path content.
       if path = chunks_path then Cut 4 (Exception ''[Errno 28] No space left on device'')
       else Complete)\<rparr>"

text \<open>The state that the ingestion of \<open>doc_a\<close> leaves on the full disk.\<close>

definition cut_state :: state where
  "cut_state =
     \<lparr>index = [[10]], chunks = [chunk_a], index_file = Some ''IxF2 1'',
      chunks_file = Some ''[\<newline>  '',
      calls = [EncodeCall [''alpha beta''], IndexAddCall [[10]]]\<rparr>"

definition far_env :: env where
  "far_env = demo_env\<lparr>index_search := (\<lambda>stored queries k.
       Inr ([2, FLT_MAX, FLT_MAX, FLT_MAX, FLT_MAX], [0, - 1, - 1, - 1, - 1]))\<rparr>"

subsection \<open>Chunk records as shared objects\<close>

text \<open>
  In the source a chunk record is a \<^verbatim>\<open>dict\<close> object, and \<^verbatim>\<open>self.chunks\<close> is a list of
  references to such objects. To speak about sharing, the loop of
  \<^verbatim>\<open>retrieve_relevant_chunks\<close> is embedded a second time over an explicit heap: a list of
  dictionaries, a reference being a position in it; a new object is appended to the heap.
\<close>

datatype pyval =
    PyStr string
  | PyInt int
  | PyFloat real

type_synonym pydict = "string \<rightharpoonup> pyval"

type_synonym address = nat

definition dict_of_chunk :: "chunk \<Rightarrow> pydict" where
  "dict_of_chunk c =
     [''text'' \<mapsto> PyStr (text c), ''filename'' \<mapsto> PyStr (filename c),
      ''chunk_id'' \<mapsto> PyInt (chunk_id c)]"

definition dict_of_retrieved :: "retrieved_chunk \<Rightarrow> pydict" where
  "dict_of_retrieved r =
     [''text'' \<mapsto> PyStr (text r), ''filename'' \<mapsto> PyStr (filename r),
      ''chunk_id'' \<mapsto> PyInt (chunk_id r),
      ''similarity_score'' \<mapsto> PyFloat (similarity_score r)]"

text \<open>
  The loop, on references. \<^verbatim>\<open>self.chunks[idx].copy()\<close> allocates a new dictionary with the
  entries of the stored one; the assignment to \<^verbatim>\<open>chunk_data['similarity_score']\<close> updates
  the new object in place; the reference to it is appended to \<open>relevant_chunks\<close>.
\<close>

fun filter_loop_refs ::
  "pydict list \<Rightarrow> address list \<Rightarrow> real \<Rightarrow> address list \<Rightarrow> (real \<times> int) list
     \<Rightarrow> exn + (address list \<times> pydict list)"
where
  "filter_loop_refs heap refs threshold relevant_chunks [] = Inr (relevant_chunks, heap)"
| "filter_loop_refs heap refs threshold relevant_chunks ((distance, idx) # rest) =
     (if distance < threshold \<and> idx < int (length refs) then
        (case py_index refs idx of
           Inl e \<Rightarrow> Inl e
         | Inr r \<Rightarrow>
             (let chunk_data = length heap;
                  heap1 = heap @ [heap ! r];
                  heap2 = heap1[chunk_data :=
                            (heap1 ! chunk_data)(''similarity_score'' \<mapsto> PyFloat distance)]
              in filter_loop_refs heap2 refs threshold (relevant_chunks @ [chunk_data]) rest))
      else filter_loop_refs heap refs threshold relevant_chunks rest)"

section \<open>Facts about the string operations\<close>

declare range_up.simps [simp del]
declare range_down.simps [simp del]
declare repr_nat.simps [simp del]

lemma wordlike_Nil [simp]: "wordlike []"
  by (simp add: wordlike_def)

lemma wordlike_Cons [simp]:
  "wordlike (w # ws) \<longleftrightarrow> w \<noteq> [] \<and> (\<forall>c \<in> set w. \<not> isspace c) \<and> wordlike ws"
  by (auto simp: wordlike_def)

lemma split_from_wordlike:
  "\<forall>c \<in> set w. \<not> isspace c \<Longrightarrow> wordlike (split_from w s)"
proof (induction s arbitrary: w)
  case Nil
  then show ?case by simp
next
  case (Cons c s)
  have e: "wordlike (split_from [] s)" by (rule Cons.IH) simp
  have n: "\<not> isspace c \<Longrightarrow> wordlike (split_from (w @ [c]) s)"
    by (rule Cons.IH) (use Cons.prems in auto)
  from e n Cons.prems show ?case by simp
qed

lemma py_split_wordlike: "wordlike (py_split s)"
  by (simp add: py_split_def split_from_wordlike)

lemma split_from_word:
  "\<forall>c \<in> set x. \<not> isspace c \<Longrightarrow> split_from w (x @ s) = split_from (w @ x) s"
  by (induction x arbitrary: w) auto

lemma isspace_space: "isspace CHR '' ''"
  by (simp add: isspace_def)

lemma split_from_word_space:
  assumes "x \<noteq> []" "\<forall>c \<in> set x. \<not> isspace c"
  shows "split_from [] (x @ '' '' @ s) = x # split_from [] s"
proof -
  have "split_from [] (x @ '' '' @ s) = split_from x ('' '' @ s)"
    using split_from_word [OF assms(2), of "[]"] by simp
  also have "\<dots> = x # split_from [] s"
    using assms(1) by (simp add: isspace_space)
  finally show ?thesis .
qed

lemma py_split_join:
  "wordlike ws \<Longrightarrow> py_split (py_join '' '' ws) = ws"
proof (induction ws rule: induct_list012)
  case 1
  then show ?case by (simp add: py_split_def)
next
  case (2 x)
  then have "split_from [] (x @ []) = split_from ([] @ x) []"
    by (intro split_from_word) simp
  with 2 show ?case by (simp add: py_split_def)
next
  case (3 x y ys)
  then show ?case
    using split_from_word_space [of x "py_join '' '' (y # ys)"]
    by (simp add: py_split_def)
qed

lemma py_join_nonempty: "wordlike ws \<Longrightarrow> ws \<noteq> [] \<Longrightarrow> py_join '' '' ws \<noteq> []"
  by (induction ws rule: induct_list012) auto

lemma hd_py_join: "wordlike ws \<Longrightarrow> ws \<noteq> [] \<Longrightarrow> \<not> isspace (hd (py_join '' '' ws))"
  by (induction ws rule: induct_list012) auto

lemma last_py_join: "wordlike ws \<Longrightarrow> ws \<noteq> [] \<Longrightarrow> \<not> isspace (last (py_join '' '' ws))"
proof (induction ws rule: induct_list012)
  case 1 then show ?case by simp
next
  case (2 x) then show ?case by simp
next
  case (3 x y ys)
  then have "py_join '' '' (y # ys) \<noteq> []" by (intro py_join_nonempty) auto
  with 3 show ?case by simp
qed

lemma py_strip_id: "s \<noteq> [] \<Longrightarrow> \<not> isspace (hd s) \<Longrightarrow> \<not> isspace (last s) \<Longrightarrow> py_strip s = s"
proof -
  assume a: "s \<noteq> []" "\<not> isspace (hd s)" "\<not> isspace (last s)"
  then have "dropWhile isspace s = s" by (cases s) auto
  moreover have "dropWhile isspace (rev s) = rev s" using a by (cases "rev s") (auto simp: last_rev hd_rev)
  ultimately show ?thesis by (simp add: py_strip_def)
qed

lemma py_strip_join: "wordlike ws \<Longrightarrow> ws \<noteq> [] \<Longrightarrow> py_strip (py_join '' '' ws) = py_join '' '' ws"
  by (simp add: py_strip_id py_join_nonempty hd_py_join last_py_join)

lemma chunk_loop_concat:
  "chunk_loop words chunk_size acc is =
     acc @ concat (map (\<lambda>i. let chunk = py_join '' '' (py_slice words i (i + chunk_size))
                                in if py_strip chunk \<noteq> [] then [py_strip chunk] else []) is)"
  by (induction "is" arbitrary: acc) (auto simp: Let_def)

lemma py_slice_window:
  "0 \<le> i \<Longrightarrow> 0 \<le> n \<Longrightarrow> py_slice xs i (i + n) = take (nat n) (drop (nat i) xs)"
  by (auto simp: py_slice_def slice_bound_def Let_def min_def nat_add_distrib)

lemma range_up_stop: "\<not> (0 < step \<and> i < stop) \<Longrightarrow> range_up i stop step = []"
  by (subst range_up.simps) simp

lemma range_up_step: "0 < step \<Longrightarrow> i < stop \<Longrightarrow> range_up i stop step = i # range_up (i + step) stop step"
  by (subst range_up.simps) simp

lemma range_up_map:
  "0 < step \<Longrightarrow>
   range_up i stop step =
     map (\<lambda>k. i + int k * step) [0 ..< nat ((stop - i + step - 1) div step)]"
proof (induction i stop step rule: range_up.induct)
  case (1 i stop step)
  show ?case
  proof (cases "i < stop")
    case False
    have "stop - i + step - 1 \<le> step - 1" using False by simp
    then have "(stop - i + step - 1) div step \<le> (step - 1) div step"
      using 1(2) by (rule zdiv_mono1)
    also have "(step - 1) div step = 0"
      using 1(2) by simp
    finally have "nat ((stop - i + step - 1) div step) = 0" by simp
    with False show ?thesis by (simp add: range_up_stop)
  next
    case True
    have "stop - i + step - 1 = (stop - (i + step) + step - 1) + step" by simp
    then have "(stop - i + step - 1) div step = (stop - (i + step) + step - 1) div step + 1"
      using 1(2) by (simp only: div_add_self2)
    moreover have "0 \<le> (stop - (i + step) + step - 1) div step"
      using True 1(2) by (simp add: pos_imp_zdiv_nonneg_iff)
    ultimately have n: "nat ((stop - i + step - 1) div step)
        = Suc (nat ((stop - (i + step) + step - 1) div step))"
      by simp
    have "range_up i stop step = i # range_up (i + step) stop step"
      using True 1(2) by (simp add: range_up_step)
    also have "\<dots> = i # map (\<lambda>k. i + step + int k * step)
        [0 ..< nat ((stop - (i + step) + step - 1) div step)]"
      using 1(1) True 1(2) by simp
    also have "\<dots> = map (\<lambda>k. i + int k * step)
        [0 ..< Suc (nat ((stop - (i + step) + step - 1) div step))]"
      by (simp add: upt_conv_Cons map_Suc_upt [symmetric] algebra_simps del: upt_Suc)
    finally show ?thesis using n by simp
  qed
qed

section \<open>The windows of the chunker\<close>

lemma range_up_bounds: "x \<in> set (range_up i stop step) \<Longrightarrow> i \<le> x \<and> x < stop"
proof (induction i stop step rule: range_up.induct)
  case (1 i stop step)
  show ?case
  proof (cases "0 < step \<and> i < stop")
    case True
    with 1 show ?thesis by (auto simp: range_up_step)
  next
    case False
    with 1(2) show ?thesis by (simp add: range_up_stop)
  qed
qed

lemma wordlike_take: "wordlike ws \<Longrightarrow> wordlike (take n ws)"
  by (auto simp: wordlike_def dest: in_set_takeD)

lemma wordlike_drop: "wordlike ws \<Longrightarrow> wordlike (drop n ws)"
  by (auto simp: wordlike_def dest: in_set_dropD)

lemma chunk_body_window:
  assumes "wordlike ws" "0 < cs" "0 \<le> i" "i < int (length ws)"
  shows "(let chunk = py_join '' '' (py_slice ws i (i + cs))
          in if py_strip chunk \<noteq> [] then [py_strip chunk] else [])
         = [py_join '' '' (take (nat cs) (drop (nat i) ws))]"
proof -
  let ?win = "take (nat cs) (drop (nat i) ws)"
  have s: "py_slice ws i (i + cs) = ?win"
    using assms by (simp add: py_slice_window)
  have ne: "?win \<noteq> []" using assms by simp
  have wl: "wordlike ?win" using assms(1) by (simp add: wordlike_take wordlike_drop)
  show ?thesis
    using py_strip_join [OF wl ne] py_join_nonempty [OF wl ne] by (simp add: s)
qed

lemma chunk_text_windows:
  assumes "0 < cs" "ov < cs"
  shows "chunk_text t cs ov =
     Inr (map (\<lambda>k. py_join '' '' (take (nat cs) (drop (k * nat (cs - ov)) (py_split t))))
            [0 ..< nat ((int (length (py_split t)) + (cs - ov) - 1) div (cs - ov))])"
proof -
  let ?ws = "py_split t"
  let ?step = "cs - ov"
  let ?body = "\<lambda>i. let chunk = py_join '' '' (py_slice ?ws i (i + cs))
                 in if py_strip chunk \<noteq> [] then [py_strip chunk] else []"
  have st: "0 < ?step" using assms by simp
  have r: "py_range 0 (int (length ?ws)) ?step = Inr (range_up 0 (int (length ?ws)) ?step)"
    using st by (simp add: py_range_def)
  have "map ?body (range_up 0 (int (length ?ws)) ?step)
        = map (\<lambda>i. [py_join '' '' (take (nat cs) (drop (nat i) ?ws))])
            (range_up 0 (int (length ?ws)) ?step)"
  proof (rule map_cong [OF refl])
    fix i assume "i \<in> set (range_up 0 (int (length ?ws)) ?step)"
    then have "0 \<le> i \<and> i < int (length ?ws)" by (rule range_up_bounds)
    then show "?body i = [py_join '' '' (take (nat cs) (drop (nat i) ?ws))]"
      using chunk_body_window [OF py_split_wordlike assms(1), of i "t"] by simp
  qed
  then have "chunk_loop ?ws cs [] (range_up 0 (int (length ?ws)) ?step)
        = map (\<lambda>i. py_join '' '' (take (nat cs) (drop (nat i) ?ws)))
            (range_up 0 (int (length ?ws)) ?step)"
    by (simp only: chunk_loop_concat append_Nil) simp
  also have "\<dots> = map (\<lambda>k. py_join '' '' (take (nat cs) (drop (k * nat ?step) ?ws)))
            [0 ..< nat ((int (length ?ws) + ?step - 1) div ?step)]"
    using st by (simp add: range_up_map [OF st] o_def nat_mult_distrib)
  finally show ?thesis
    by (simp add: chunk_text_def r Let_def)
qed

lemma chunk_text_default:
  "chunk_text t 500 50 =
     Inr (map (\<lambda>k. py_join '' '' (take 500 (drop (450 * k) (py_split t))))
            [0 ..< (length (py_split t) + 449) div 450])"
proof -
  have "int (length (py_split t)) + (500 - 50) - 1 = int (length (py_split t) + 449)"
    by simp
  then have "nat ((int (length (py_split t)) + (500 - 50) - 1) div (500 - 50))
        = (length (py_split t) + 449) div 450"
    by (simp only: nat_div_distrib nat_int) simp
  then show ?thesis
    using chunk_text_windows [of 500 50 "t"] by (simp add: mult.commute)
qed

section \<open>The claims about the chunker\<close>

lemma not_isspace_w: "\<not> isspace CHR ''w''"
  by (simp add: isspace_def)

lemma py_split_replicate_w: "py_split (py_join '' '' (replicate n ''w'')) = replicate n ''w''"
  by (rule py_split_join) (simp add: wordlike_def not_isspace_w)

lemma split_from_spaces: "\<forall>c \<in> set s. isspace c \<Longrightarrow> split_from [] s = []"
  by (induction s) auto

lemma chunk_text_no_words: "py_split t = [] \<Longrightarrow> chunk_text t 500 50 = Inr []"
  by (simp add: chunk_text_default)

lemma chunk_text_one_window:
  assumes "1 \<le> length (py_split t)" "length (py_split t) \<le> 450"
  shows "chunk_text t 500 50 = Inr [py_join '' '' (py_split t)]"
proof -
  have "(length (py_split t) + 449) div 450 = 1" using assms by linarith
  then show ?thesis using assms by (simp add: chunk_text_default)
qed

lemma chunk_text_two_windows:
  assumes "450 < length (py_split t)" "length (py_split t) \<le> 900"
  shows "chunk_text t 500 50 =
    Inr [py_join '' '' (take 500 (py_split t)), py_join '' '' (take 500 (drop 450 (py_split t)))]"
proof -
  have "(length (py_split t) + 449) div 450 = 2" using assms by linarith
  then have "[0 ..< (length (py_split t) + 449) div 450] = [0, 1]"
    by (simp add: upt_rec)
  then show ?thesis by (simp add: chunk_text_default)
qed

text \<open>
  Claim C3 as stated fails between 451 and 499 words: a text of 451 words has fewer words
  than \<open>chunk_size = 500\<close>, yet the range \<^verbatim>\<open>range(0, 451, 450)\<close> has the two starts 0 and
  450, and the call emits two chunks: the whole text and its last word.
\<close>

theorem chunk_text_451_words:
  "length (py_split text_451) = 451 \<and>
   chunk_text text_451 500 50 = Inr [text_451, ''w'']"
proof -
  have s: "py_split text_451 = replicate 451 ''w''"
    by (simp add: text_451_def py_split_replicate_w)
  have "chunk_text text_451 500 50 =
    Inr [py_join '' '' (take 500 (py_split text_451)), py_join '' '' (take 500 (drop 450 (py_split text_451)))]"
    by (rule chunk_text_two_windows) (simp_all add: s)
  then show ?thesis by (simp add: s) (simp add: text_451_def)
qed

text \<open>
  Claim C3, amended. With the default \<open>chunk_size = 500\<close> and \<open>overlap = 50\<close>: a text that is
  empty or holds only whitespace gives no chunk; a text of 1 to 450 words (at most
  \<open>chunk_size - overlap\<close>) gives exactly one chunk, its words joined by single spaces; a
  text of 451 to 499 words gives two chunks, all its words and then the words from
  position 450 on.
\<close>

theorem chunk_text_short_text:
  "((\<forall>c \<in> set t. isspace c) \<longrightarrow> chunk_text t 500 50 = Inr []) \<and>
   (1 \<le> length (py_split t) \<and> length (py_split t) \<le> 450 \<longrightarrow>
      chunk_text t 500 50 = Inr [py_join '' '' (py_split t)]) \<and>
   (450 < length (py_split t) \<and> length (py_split t) < 500 \<longrightarrow>
      chunk_text t 500 50 =
        Inr [py_join '' '' (py_split t), py_join '' '' (drop 450 (py_split t))])"
proof (intro conjI impI)
  assume "\<forall>c \<in> set t. isspace c"
  then show "chunk_text t 500 50 = Inr []"
    by (simp add: chunk_text_no_words py_split_def split_from_spaces)
next
  assume "1 \<le> length (py_split t) \<and> length (py_split t) \<le> 450"
  then show "chunk_text t 500 50 = Inr [py_join '' '' (py_split t)]"
    by (simp add: chunk_text_one_window)
next
  assume a: "450 < length (py_split t) \<and> length (py_split t) < 500"
  then have "length (drop 450 (py_split t)) \<le> 500"
    by (simp only: length_drop) linarith
  then have "take 500 (drop 450 (py_split t)) = drop 450 (py_split t)"
    by (rule take_all)
  with a show "chunk_text t 500 50 =
        Inr [py_join '' '' (py_split t), py_join '' '' (drop 450 (py_split t))]"
    using chunk_text_two_windows [of "t"] by simp
qed

text \<open>The amended claim C3 at the empty text, a whitespace-only text, a two-word text and
  the text of 451 words.\<close>

theorem chunk_text_short_text_witness:
  "chunk_text [] 500 50 = Inr [] \<and>
   chunk_text '' \<newline>  '' 500 50 = Inr [] \<and>
   chunk_text '' alpha  beta '' 500 50 = Inr [''alpha beta''] \<and>
   chunk_text text_451 500 50 = Inr [text_451, ''w'']"
proof -
  have s: "py_split text_451 = replicate 451 ''w''"
    by (simp add: text_451_def py_split_replicate_w)
  have a: "py_split '' alpha  beta '' = [''alpha'', ''beta'']"
    by (simp add: py_split_def isspace_def)
  have "chunk_text [] 500 50 = Inr []" using chunk_text_short_text [of "[]"] by simp
  moreover have "chunk_text '' \<newline>  '' 500 50 = Inr []"
    using chunk_text_short_text [of "'' \<newline>  ''"] by (simp add: isspace_def)
  moreover have "chunk_text '' alpha  beta '' 500 50 = Inr [''alpha beta'']"
    using chunk_text_short_text [of "'' alpha  beta ''"] by (simp add: a)
  moreover have "chunk_text text_451 500 50 = Inr [text_451, ''w'']"
    using chunk_text_short_text [of text_451] by (simp add: s) (simp add: text_451_def)
  ultimately show ?thesis by simp
qed

text \<open>
  Claim C4 as stated fails when \<open>overlap\<close> exceeds \<open>chunk_size\<close>: the step is negative,
  \<^verbatim>\<open>range(0, 3, -1)\<close> is empty, and the call returns the empty list without any error.
\<close>

theorem chunk_text_overlap_exceeds_size: "chunk_text ''a b c'' 2 3 = Inr []"
  by (simp add: chunk_text_def py_range_def range_down.simps)

lemma range_down_empty: "i \<le> stop \<Longrightarrow> range_down i stop step = []"
  by (subst range_down.simps) simp

text \<open>
  Claim C4, amended. \<^verbatim>\<open>chunk_text\<close> has no check of its parameters. When \<open>overlap\<close> equals
  \<open>chunk_size\<close> the call raises the \<^verbatim>\<open>ValueError\<close> of \<^verbatim>\<open>range\<close> for a zero step; when
  \<open>overlap\<close> exceeds \<open>chunk_size\<close> it returns the empty list whatever the text. It never
  loops forever: \<^const>\<open>chunk_text\<close> is a total function, the two range functions
  having been shown to terminate.
\<close>

theorem chunk_text_nonpositive_step:
  "(overlap = chunk_size \<longrightarrow>
      chunk_text t chunk_size overlap = Inl (ValueError ''range() arg 3 must not be zero'')) \<and>
   (chunk_size < overlap \<longrightarrow> chunk_text t chunk_size overlap = Inr [])"
  by (simp add: chunk_text_def py_range_def range_down_empty)

text \<open>The amended claim C4 at \<open>chunk_size = overlap = 2\<close> and at \<open>chunk_size = 50\<close>,
  \<open>overlap = 500\<close>.\<close>

theorem chunk_text_nonpositive_step_witness:
  "chunk_text ''a b c'' 2 2 = Inl (ValueError ''range() arg 3 must not be zero'') \<and>
   chunk_text ''a b c'' 50 500 = Inr []"
  using chunk_text_nonpositive_step [of 2 2 "''a b c''"] chunk_text_nonpositive_step [of 500 50 "''a b c''"] by simp

lemma window_split:
  assumes "450 * k < length (py_split t)"
  shows "py_split (py_join '' '' (take 500 (drop (450 * k) (py_split t))))
         = take 500 (drop (450 * k) (py_split t))"
  by (rule py_split_join) (simp add: wordlike_take wordlike_drop py_split_wordlike)

lemma window_count_bound:
  "k < (n + 449) div 450 \<longleftrightarrow> 450 * k < (n::nat)"
  by linarith

lemma window_overlap:
  fixes ws :: "'a list"
  assumes "450 * Suc k < length ws"
  defines "a \<equiv> take 500 (drop (450 * k) ws)"
  defines "b \<equiv> take 500 (drop (450 * Suc k) ws)"
  shows "a = take 450 a @ take (min 50 (length b)) b \<and> length a = 450 + min 50 (length b)"
proof -
  let ?m = "min 50 (length b)"
  have lb: "length b = min 500 (length ws - 450 * Suc k)"
    by (simp add: b_def min.commute)
  have la: "length a = min 500 (length ws - 450 * k)"
    by (simp add: a_def min.commute)
  have len: "length a = 450 + ?m"
    using assms(1) unfolding la lb by simp
  have "take 450 a = take 450 (drop (450 * k) ws)"
    by (simp add: a_def)
  moreover have "take ?m b = take ?m (drop 450 (drop (450 * k) ws))"
    by (simp add: b_def add.commute)
  ultimately have "take 450 a @ take ?m b = take (450 + ?m) (drop (450 * k) ws)"
    by (simp only: take_add)
  also have "\<dots> = take (length a) (drop (450 * k) ws)"
    by (simp only: len)
  also have "\<dots> = a"
    unfolding la by (cases "500 \<le> length ws - 450 * k") (simp_all add: a_def min_def)
  finally show ?thesis using len by simp
qed

text \<open>
  Claim C5, amended. With the default parameters every text gives
  \<open>\<lceil>w / 450\<rceil>\<close> chunks, where \<open>w\<close> is its number of words; chunk \<open>k\<close> holds the words
  from position \<open>450 * k\<close> on, at least one and at most 500 of them. Two consecutive
  windows share \<open>m\<close> words, where \<open>m\<close> is the smaller of 50 and the length of the later
  window: the earlier window is its first 450 words followed by the first \<open>m\<close> words of
  the later one. \<open>m\<close> is 50 for every pair but possibly the last.
\<close>

theorem chunk_text_sliding_windows:
  "\<exists>cs. chunk_text t 500 50 = Inr cs \<and>
     length cs = (length (py_split t) + 449) div 450 \<and>
     (\<forall>k < length cs.
        py_split (cs ! k) = take 500 (drop (450 * k) (py_split t)) \<and>
        1 \<le> length (py_split (cs ! k)) \<and> length (py_split (cs ! k)) \<le> 500) \<and>
     (\<forall>k. Suc k < length cs \<longrightarrow>
        py_split (cs ! k) =
          take 450 (py_split (cs ! k)) @
          take (min 50 (length (py_split (cs ! Suc k)))) (py_split (cs ! Suc k)) \<and>
        length (py_split (cs ! k)) = 450 + min 50 (length (py_split (cs ! Suc k))) \<and>
        (Suc (Suc k) < length cs \<longrightarrow> 50 \<le> length (py_split (cs ! Suc k))))"
proof -
  let ?ws = "py_split t"
  let ?n = "(length ?ws + 449) div 450"
  let ?cs = "map (\<lambda>k. py_join '' '' (take 500 (drop (450 * k) ?ws))) [0 ..< ?n]"
  have split: "py_split (?cs ! k) = take 500 (drop (450 * k) ?ws)" if "k < ?n" for k
    using that by (simp add: window_split window_count_bound)
  have sizes: "1 \<le> length (py_split (?cs ! k)) \<and> length (py_split (?cs ! k)) \<le> 500"
    if "k < ?n" for k
  proof -
    from that have "450 * k < length ?ws" by (simp add: window_count_bound)
    then show ?thesis by (simp only: split [OF that] length_take length_drop) linarith
  qed
  have pair: "py_split (?cs ! k) =
          take 450 (py_split (?cs ! k)) @
          take (min 50 (length (py_split (?cs ! Suc k)))) (py_split (?cs ! Suc k)) \<and>
        length (py_split (?cs ! k)) = 450 + min 50 (length (py_split (?cs ! Suc k))) \<and>
        (Suc (Suc k) < ?n \<longrightarrow> 50 \<le> length (py_split (?cs ! Suc k)))"
    if "Suc k < ?n" for k
  proof -
    from that have k: "k < ?n" by simp
    from that have b: "450 * Suc k < length ?ws" by (simp only: window_count_bound)
    have full: "50 \<le> length (py_split (?cs ! Suc k))" if "Suc (Suc k) < ?n"
    proof -
      from that have "450 * Suc (Suc k) < length ?ws" by (simp only: window_count_bound)
      then show ?thesis by (simp only: split [OF \<open>Suc k < ?n\<close>]) simp
    qed
    show ?thesis
      using window_overlap [OF b] full by (simp only: split [OF k] split [OF that]) simp
  qed
  have "chunk_text t 500 50 = Inr ?cs" by (rule chunk_text_default)
  moreover have "length ?cs = ?n" by simp
  ultimately show ?thesis using split sizes pair
    by (intro exI [of _ ?cs] conjI allI impI) (simp_all only: )
qed

text \<open>
  Claim C5 as stated fails when the last window is shorter than 50 words: a text of 460
  words gives the windows of words 0 to 459 and of words 450 to 459, and this pair of
  consecutive windows shares 10 words, not 50.
\<close>

theorem chunk_text_460_words:
  "length (py_split text_460) = 460 \<and>
   chunk_text text_460 500 50 = Inr [text_460, py_join '' '' (replicate 10 ''w'')] \<and>
   length (py_split (py_join '' '' (replicate 10 ''w''))) = 10"
proof -
  have s: "py_split text_460 = replicate 460 ''w''"
    by (simp add: text_460_def py_split_replicate_w)
  have "chunk_text text_460 500 50 =
    Inr [py_join '' '' (take 500 (py_split text_460)),
         py_join '' '' (take 500 (drop 450 (py_split text_460)))]"
    by (rule chunk_text_two_windows) (simp_all add: s)
  then have "chunk_text text_460 500 50 = Inr [text_460, py_join '' '' (replicate 10 ''w'')]"
    by (simp add: s) (simp add: text_460_def)
  then show ?thesis by (simp add: s py_split_replicate_w)
qed

text \<open>The amended claim C5 at a text of 1000 words: three windows of 500, 500 and 100
  words, each pair sharing 50 words.\<close>

theorem chunk_text_sliding_windows_witness:
  "\<exists>cs. chunk_text text_1000 500 50 = Inr cs \<and> length cs = 3 \<and>
     py_split (cs ! 0) = replicate 500 ''w'' \<and>
     py_split (cs ! 1) = replicate 500 ''w'' \<and>
     py_split (cs ! 2) = replicate 100 ''w'' \<and>
     py_split (cs ! 0) = take 450 (py_split (cs ! 0)) @ take 50 (py_split (cs ! 1)) \<and>
     py_split (cs ! 1) = take 450 (py_split (cs ! 1)) @ take 50 (py_split (cs ! 2))"
proof -
  have s: "py_split text_1000 = replicate 1000 ''w''"
    by (simp add: text_1000_def py_split_replicate_w)
  obtain cs where cs: "chunk_text text_1000 500 50 = Inr cs"
    and len: "length cs = (length (py_split text_1000) + 449) div 450"
    and win: "\<forall>k < length cs.
        py_split (cs ! k) = take 500 (drop (450 * k) (py_split text_1000)) \<and>
        1 \<le> length (py_split (cs ! k)) \<and> length (py_split (cs ! k)) \<le> 500"
    and ov: "\<forall>k. Suc k < length cs \<longrightarrow>
        py_split (cs ! k) =
          take 450 (py_split (cs ! k)) @
          take (min 50 (length (py_split (cs ! Suc k)))) (py_split (cs ! Suc k)) \<and>
        length (py_split (cs ! k)) = 450 + min 50 (length (py_split (cs ! Suc k))) \<and>
        (Suc (Suc k) < length cs \<longrightarrow> 50 \<le> length (py_split (cs ! Suc k)))"
    using chunk_text_sliding_windows [of text_1000] by blast
  have l3: "length cs = 3" using len by (simp add: s)
  have w0: "py_split (cs ! 0) = replicate 500 ''w''"
    using win l3 by (simp add: s)
  have w1: "py_split (cs ! 1) = replicate 500 ''w''"
    using win [rule_format, of 1] l3 by (simp add: s)
  have w2: "py_split (cs ! 2) = replicate 100 ''w''"
    using win [rule_format, of 2] l3 by (simp add: s)
  have o0: "py_split (cs ! 0) = take 450 (py_split (cs ! 0)) @ take 50 (py_split (cs ! 1))"
  proof -
    have m: "min 50 (length (py_split (cs ! Suc 0))) = 50" using w1 by simp
    have "Suc 0 < length cs" using l3 by simp
    with ov have "py_split (cs ! 0) =
          take 450 (py_split (cs ! 0)) @
          take (min 50 (length (py_split (cs ! Suc 0)))) (py_split (cs ! Suc 0))"
      by blast
    then show ?thesis by (simp only: m One_nat_def)
  qed
  have o1: "py_split (cs ! 1) = take 450 (py_split (cs ! 1)) @ take 50 (py_split (cs ! 2))"
  proof -
    have m: "min 50 (length (py_split (cs ! Suc (Suc 0)))) = 50"
      using w2 by (simp add: numeral_2_eq_2)
    have "Suc (Suc 0) < length cs" using l3 by simp
    with ov have "py_split (cs ! Suc 0) =
          take 450 (py_split (cs ! Suc 0)) @
          take (min 50 (length (py_split (cs ! Suc (Suc 0))))) (py_split (cs ! Suc (Suc 0)))"
      by blast
    then show ?thesis by (simp only: m One_nat_def numeral_2_eq_2)
  qed
  from cs l3 w0 w1 w2 o0 o1 show ?thesis by blast
qed

section \<open>The chunk records survive their serialisation\<close>































section \<open>Ingestion keeps the index and the chunk store in step\<close>







lemma save_index_fields [simp]:
  "index (snd (save_index env s)) = index s" "chunks (snd (save_index env s)) = chunks s"
  "calls (snd (save_index env s)) = calls s"
  by (simp_all add: save_index_def Let_def split: option.splits)

lemma engine_inv_save_index [simp]: "engine_inv (snd (save_index env s)) = engine_inv s"
  by (simp add: engine_inv_def)



lemma chunk_text_alpha_beta: "chunk_text ''alpha  beta '' 500 50 = Inr [''alpha beta'']"
proof -
  have a: "py_split ''alpha  beta '' = [''alpha'', ''beta'']"
    by (simp add: py_split_def isspace_def)
  show ?thesis
    using chunk_text_one_window [of "''alpha  beta ''"] by (simp add: a)
qed




section \<open>Retrieval, answer composition and persistence\<close>

text \<open>
  Claim C9. On an empty chunk store \<^verbatim>\<open>retrieve_relevant_chunks\<close> returns the empty list,
  whatever the query, \<open>top_k\<close> and the threshold, and leaves the whole state as it was:
  the log of calls is unchanged, so neither the embedder nor the index search was invoked.
  This holds for every environment, also one whose embedder and index always raise.
\<close>

theorem retrieve_empty_store:
  "chunks s = [] \<Longrightarrow> retrieve_relevant_chunks env s q top_k threshold = (Inr [], s)"
  by (simp add: retrieve_relevant_chunks_def)

text \<open>Claim C9 at the empty state, in an environment where every collaborator fails.\<close>

theorem retrieve_empty_store_witness:
  "chunks empty_state = [] \<and>
   retrieve_relevant_chunks failing_env empty_state ''What is alpha?'' 5 (3 / 2)
     = (Inr [], empty_state) \<and>
   calls empty_state = []"
  using retrieve_empty_store [of empty_state failing_env "''What is alpha?''" 5 "3 / 2"]
  by (simp add: empty_state_def)

lemma retrieve_calls:
  "filter is_completion_call (calls (snd (retrieve_relevant_chunks env s q top_k threshold)))
     = filter is_completion_call (calls s)"
  by (auto simp: retrieve_relevant_chunks_def log_call_def Let_def split: sum.splits prod.splits)

lemma retrieve_frame:
  "index (snd (retrieve_relevant_chunks env s q top_k threshold)) = index s \<and>
   chunks (snd (retrieve_relevant_chunks env s q top_k threshold)) = chunks s \<and>
   index_file (snd (retrieve_relevant_chunks env s q top_k threshold)) = index_file s \<and>
   chunks_file (snd (retrieve_relevant_chunks env s q top_k threshold)) = chunks_file s"
  by (auto simp: retrieve_relevant_chunks_def log_call_def Let_def split: sum.splits prod.splits)

lemma generate_answer_frame:
  "index (snd (generate_answer env s q rs)) = index s \<and>
   chunks (snd (generate_answer env s q rs)) = chunks s \<and>
   index_file (snd (generate_answer env s q rs)) = index_file s \<and>
   chunks_file (snd (generate_answer env s q rs)) = chunks_file s"
  by (auto simp: generate_answer_def log_call_def Let_def split: sum.splits completion.splits)

text \<open>
  Claim C6. \<^verbatim>\<open>generate_answer\<close> on an empty list of results returns the fixed refusal and
  leaves the state, hence the log of calls, as it was. When the retrieval of \<^verbatim>\<open>query\<close>
  returns no result, \<^verbatim>\<open>query\<close> returns the refusal, an empty list of sources and
  \<open>num_sources = 0\<close>, in the state the retrieval left: the completion calls in the log are
  those that were there before the query. On an empty chunk store \<^verbatim>\<open>query\<close> returns this response and the
  state is unchanged altogether.
\<close>

theorem empty_results_refusal:
  "generate_answer env s q [] = (Some refusal, s) \<and>
   (retrieve_relevant_chunks env s q 5 (3 / 2) = (Inr [], s1) \<longrightarrow>
      query env s q = (Inr \<lparr>answer = Some refusal, sources = [], num_sources = 0\<rparr>, s1) \<and>
      filter is_completion_call (calls s1) = filter is_completion_call (calls s)) \<and>
   (chunks s = [] \<longrightarrow>
      query env s q = (Inr \<lparr>answer = Some refusal, sources = [], num_sources = 0\<rparr>, s))"
proof (intro conjI impI)
  show g: "generate_answer env s q [] = (Some refusal, s)"
    by (simp add: generate_answer_def)
  show "query env s q = (Inr \<lparr>answer = Some refusal, sources = [], num_sources = 0\<rparr>, s1)"
    if "retrieve_relevant_chunks env s q 5 (3 / 2) = (Inr [], s1)"
    using that by (simp add: query_def generate_answer_def)
  show "filter is_completion_call (calls s1) = filter is_completion_call (calls s)"
    if "retrieve_relevant_chunks env s q 5 (3 / 2) = (Inr [], s1)"
    using retrieve_calls [of env s q 5 "3 / 2"] that by simp
  show "query env s q = (Inr \<lparr>answer = Some refusal, sources = [], num_sources = 0\<rparr>, s)"
    if "chunks s = []"
    using that by (simp add: query_def generate_answer_def retrieve_relevant_chunks_def)
qed

lemma retrieve_far:
  "retrieve_relevant_chunks far_env one_chunk_state ''What is alpha?'' 5 (3 / 2) =
     (Inr [], log_call (IndexSearchCall [[14]] 5)
                (log_call (EncodeCall [''What is alpha?'']) one_chunk_state))"
  by (simp add: retrieve_relevant_chunks_def far_env_def demo_env_def one_chunk_state_def
      log_call_def FLT_MAX_def)

text \<open>
  Claim C6 at the empty state, and at a store of one chunk whose only neighbour is at
  distance 2, above the threshold 1.5.
\<close>

theorem empty_results_refusal_witness:
  "chunks empty_state = [] \<and>
   generate_answer failing_env empty_state ''What is alpha?'' [] = (Some refusal, empty_state) \<and>
   query failing_env empty_state ''What is alpha?''
     = (Inr \<lparr>answer = Some refusal, sources = [], num_sources = 0\<rparr>, empty_state) \<and>
   retrieve_relevant_chunks far_env one_chunk_state ''What is alpha?'' 5 (3 / 2) =
     (Inr [], log_call (IndexSearchCall [[14]] 5)
                (log_call (EncodeCall [''What is alpha?'']) one_chunk_state)) \<and>
   query far_env one_chunk_state ''What is alpha?'' =
     (Inr \<lparr>answer = Some refusal, sources = [], num_sources = 0\<rparr>,
      log_call (IndexSearchCall [[14]] 5)
        (log_call (EncodeCall [''What is alpha?'']) one_chunk_state))"
proof -
  have c: "chunks empty_state = []" by (simp add: empty_state_def)
  have r: "retrieve_relevant_chunks failing_env empty_state ''What is alpha?'' 5 (3 / 2)
     = (Inr [], empty_state)"
    using c by (simp add: retrieve_relevant_chunks_def)
  from empty_results_refusal [of failing_env empty_state "''What is alpha?''" empty_state]
       empty_results_refusal [of far_env one_chunk_state "''What is alpha?''"
         "log_call (IndexSearchCall [[14]] 5)
            (log_call (EncodeCall [''What is alpha?'']) one_chunk_state)"]
       c r retrieve_far
  show ?thesis by simp
qed

text \<open>
  The part of claim C7 that the code fulfils. When the retrieval of \<^verbatim>\<open>query\<close> returns a
  non-empty list of results, \<^verbatim>\<open>query\<close> returns a response (not an exception) whose sources
  are the results in order, whatever the completion service does. When the completion call
  raises an exception \<open>e\<close>, the answer is \<^verbatim>\<open>Error generating answer: \<close> followed by
  \<^verbatim>\<open>str(e)\<close>; when it returns a response without any choice, reading \<^verbatim>\<open>choices[0]\<close> raises
  inside the \<^verbatim>\<open>try\<close> block and the answer describes that error.
\<close>

lemma completion_exception_caught:
  assumes "retrieve_relevant_chunks env s q 5 (3 / 2) = (Inr rs, s1)" and "rs \<noteq> []"
  shows "\<exists>ans s2.
     query env s q =
       (Inr \<lparr>answer = ans, sources = map (source_of env) rs, num_sources = length rs\<rparr>, s2) \<and>
     (\<forall>e. create_completion env system_content (build_prompt (build_context rs) q) = Raises e
        \<longrightarrow> ans = Some (''Error generating answer: '' @ str_exn e)) \<and>
     (create_completion env system_content (build_prompt (build_context rs) q) = Choices []
        \<longrightarrow> ans = Some ''Error generating answer: list index out of range'')"
proof (cases "create_completion env system_content (build_prompt (build_context rs) q)")
  case (Raises e)
  with assms show ?thesis
    by (simp add: query_def generate_answer_def Let_def)
next
  case (Choices cs)
  with assms show ?thesis
    by (cases cs) (simp_all add: query_def generate_answer_def Let_def py_index_def)
qed

lemma retrieve_demo:
  "retrieve_relevant_chunks demo_env one_chunk_state ''What is alpha?'' 5 (3 / 2) =
     (Inr [\<lparr>text = ''alpha beta'', filename = ''a.txt'', chunk_id = 0, similarity_score = 1 / 5\<rparr>],
      log_call (IndexSearchCall [[14]] 5)
        (log_call (EncodeCall [''What is alpha?'']) one_chunk_state))"
  by (simp add: retrieve_relevant_chunks_def demo_env_def one_chunk_state_def
      log_call_def FLT_MAX_def py_index_def with_score_def chunk_a_def)

lemma retrieve_no_choice:
  "retrieve_relevant_chunks no_choice_env one_chunk_state ''What is alpha?'' 5 (3 / 2) =
     (Inr [\<lparr>text = ''alpha beta'', filename = ''a.txt'', chunk_id = 0, similarity_score = 1 / 5\<rparr>],
      log_call (IndexSearchCall [[14]] 5)
        (log_call (EncodeCall [''What is alpha?'']) one_chunk_state))"
  by (simp add: retrieve_relevant_chunks_def no_choice_env_def demo_env_def one_chunk_state_def
      log_call_def FLT_MAX_def py_index_def with_score_def chunk_a_def)

text \<open>
  At a store of one chunk, with a completion service that times out and with one that
  returns a response without any choice.
\<close>

lemma completion_exception_caught_demo:
  "(\<exists>s2. query demo_env one_chunk_state ''What is alpha?'' =
     (Inr \<lparr>answer = Some ''Error generating answer: Request timed out.'',
           sources = [\<lparr>source_filename = ''a.txt'', text_snippet = ''alpha beta'',
                       source_similarity_score = 1 / 5\<rparr>],
           num_sources = 1\<rparr>, s2)) \<and>
   (\<exists>s2. query no_choice_env one_chunk_state ''What is alpha?'' =
     (Inr \<lparr>answer = Some ''Error generating answer: list index out of range'',
           sources = [\<lparr>source_filename = ''a.txt'', text_snippet = ''alpha beta'',
                       source_similarity_score = 1 / 5\<rparr>],
           num_sources = 1\<rparr>, s2))"
proof -
  let ?r = "\<lparr>text = ''alpha beta'', filename = ''a.txt'', chunk_id = 0, similarity_score = 1 / 5\<rparr>"
  have c: "create_completion demo_env system_content (build_prompt (build_context [?r]) ''What is alpha?'')
      = Raises (Exception ''Request timed out.'')"
    by (simp add: demo_env_def)
  have s: "map (source_of demo_env) [?r] = [\<lparr>source_filename = ''a.txt'', text_snippet = ''alpha beta'',
                       source_similarity_score = 1 / 5\<rparr>]"
    by (simp add: source_of_def demo_env_def)
  have c': "create_completion no_choice_env system_content
              (build_prompt (build_context [?r]) ''What is alpha?'') = Choices []"
    by (simp add: no_choice_env_def demo_env_def)
  have s': "map (source_of no_choice_env) [?r] = [\<lparr>source_filename = ''a.txt'',
              text_snippet = ''alpha beta'', source_similarity_score = 1 / 5\<rparr>]"
    by (simp add: source_of_def no_choice_env_def demo_env_def)
  from completion_exception_caught [OF retrieve_demo] c s
  have a: "\<exists>s2. query demo_env one_chunk_state ''What is alpha?'' =
     (Inr \<lparr>answer = Some ''Error generating answer: Request timed out.'',
           sources = [\<lparr>source_filename = ''a.txt'', text_snippet = ''alpha beta'',
                       source_similarity_score = 1 / 5\<rparr>],
           num_sources = 1\<rparr>, s2)"
    by auto
  from completion_exception_caught [OF retrieve_no_choice] c' s'
  have b: "\<exists>s2. query no_choice_env one_chunk_state ''What is alpha?'' =
     (Inr \<lparr>answer = Some ''Error generating answer: list index out of range'',
           sources = [\<lparr>source_filename = ''a.txt'', text_snippet = ''alpha beta'',
                       source_similarity_score = 1 / 5\<rparr>],
           num_sources = 1\<rparr>, s2)"
    by auto
  from a b show ?thesis by (rule conjI)
qed

text \<open>
  Claim C7 fails on the code for a malformed response that raises nothing: a choice whose
  \<^verbatim>\<open>message.content\<close> is \<^verbatim>\<open>None\<close>. The \<^verbatim>\<open>try\<close> block ends without an exception, and the
  answer of \<^verbatim>\<open>query\<close> is \<^verbatim>\<open>None\<close>: not a string, and no description of an error, although
  \<^verbatim>\<open>generate_answer\<close> is declared to return \<^verbatim>\<open>str\<close>.
\<close>

theorem query_answer_none:
  "fst (query null_content_env one_chunk_state ''What is alpha?'') =
     Inr \<lparr>answer = None,
          sources = [\<lparr>source_filename = ''a.txt'', text_snippet = ''alpha beta'',
                      source_similarity_score = 1 / 5\<rparr>],
          num_sources = 1\<rparr>"
  by (simp add: query_def retrieve_relevant_chunks_def generate_answer_def source_of_def
      null_content_env_def demo_env_def one_chunk_state_def log_call_def FLT_MAX_def
      py_index_def with_score_def chunk_a_def Let_def)


lemma cut_state_reached:
  "add_documents disk_full_env empty_state [doc_a] =
     (Inl (Exception ''[Errno 28] No space left on device''), cut_state)"
  by (simp add: add_documents_def chunk_text_alpha_beta disk_full_env_def demo_env_def
      empty_state_def cut_state_def log_call_def save_index_def raised_def file_after_def
      Let_def chunk_a_def doc_a_def json_dumps_def index_path_def chunks_path_def)




section \<open>Read-only operations and shared chunk records\<close>

lemma filter_loop_refs_fresh:
  "filter_loop_refs h refs thr acc pairs = Inr (res, h') \<Longrightarrow>
     length h \<le> length h' \<and> take (length h) h' = h \<and>
     (\<exists>new. res = acc @ new \<and> (\<forall>a \<in> set new. length h \<le> a \<and> a < length h'))"
proof (induction h refs thr acc pairs rule: filter_loop_refs.induct)
  case (1 heap refs threshold relevant_chunks)
  then show ?case by simp
next
  case (2 heap refs threshold relevant_chunks distance idx rest)
  show ?case
  proof (cases "distance < threshold \<and> idx < int (length refs)")
    case False
    with 2 show ?thesis by simp
  next
    case True
    show ?thesis
    proof (cases "py_index refs idx")
      case (Inl e)
      with True 2(3) show ?thesis by simp
    next
      case (Inr r)
      let ?h2 = "(heap @ [heap ! r])[length heap :=
                   ((heap @ [heap ! r]) ! length heap)(''similarity_score'' \<mapsto> PyFloat distance)]"
      from True Inr 2(3) have run:
        "filter_loop_refs ?h2 refs threshold (relevant_chunks @ [length heap]) rest = Inr (res, h')"
        by (simp add: Let_def)
      have l2: "length ?h2 = Suc (length heap)" by simp
      have t2: "take (length heap) ?h2 = heap" by simp
      from 2(1) [OF True Inr refl refl refl run] obtain new where
        a: "length ?h2 \<le> length h'" and b: "take (length ?h2) h' = ?h2"
        and c: "res = (relevant_chunks @ [length heap]) @ new"
        and d: "\<forall>a \<in> set new. length ?h2 \<le> a \<and> a < length h'"
        by blast
      have "take (length heap) h' = take (length heap) (take (length ?h2) h')"
        by (simp add: l2 min_def)
      also have "\<dots> = heap" by (simp only: b t2)
      finally have tk: "take (length heap) h' = heap" .
      have "res = relevant_chunks @ (length heap # new)" using c by simp
      moreover have "\<forall>a \<in> set (length heap # new). length heap \<le> a \<and> a < length h'"
        using a d l2 by auto
      ultimately show ?thesis using a l2 tk by (intro conjI exI [of _ "length heap # new"]) simp_all
    qed
  qed
qed

lemma filter_loop_refs_store_untouched:
  assumes "filter_loop_refs h refs thr [] pairs = Inr (res, h')"
      and "\<forall>r \<in> set refs. r < length h"
  shows "set res \<inter> set refs = {} \<and>
         (\<forall>r \<in> set refs. h' ! r = h ! r) \<and>
         (\<forall>a \<in> set res. \<forall>d. \<forall>r \<in> set refs. (h'[a := d]) ! r = h ! r)"
proof -
  from filter_loop_refs_fresh [OF assms(1)] have
    len: "length h \<le> length h'" and tk: "take (length h) h' = h"
    and fresh: "\<forall>a \<in> set res. length h \<le> a \<and> a < length h'"
    by auto
  have same: "h' ! r = h ! r" if "r \<in> set refs" for r
  proof -
    from that assms(2) have "r < length h" by simp
    then have "take (length h) h' ! r = h' ! r" by simp
    then show ?thesis by (simp only: tk)
  qed
  have disj: "set res \<inter> set refs = {}"
    using fresh assms(2) by fastforce
  have upd: "(h'[a := d]) ! r = h ! r" if "a \<in> set res" "r \<in> set refs" for a d r
  proof -
    from that disj have "a \<noteq> r" by auto
    then show ?thesis using same [OF that(2)] by simp
  qed
  from disj same upd show ?thesis by blast
qed

lemma query_frame:
  "index (snd (query env s q)) = index s \<and> chunks (snd (query env s q)) = chunks s \<and>
   index_file (snd (query env s q)) = index_file s \<and>
   chunks_file (snd (query env s q)) = chunks_file s"
proof (cases "retrieve_relevant_chunks env s q 5 (3 / 2)")
  case (Pair r s1)
  have f: "index s1 = index s \<and> chunks s1 = chunks s \<and> index_file s1 = index_file s \<and>
           chunks_file s1 = chunks_file s"
    using retrieve_frame [of env s q 5 "3 / 2"] Pair by simp
  show ?thesis
  proof (cases r)
    case (Inl e)
    with Pair f show ?thesis by (simp add: query_def)
  next
    case (Inr rs)
    obtain ans s2 where g: "generate_answer env s1 q rs = (ans, s2)" by (cases "generate_answer env s1 q rs")
    with generate_answer_frame [of env s1 q rs] f have
      "index s2 = index s \<and> chunks s2 = chunks s \<and> index_file s2 = index_file s \<and>
           chunks_file s2 = chunks_file s" by simp
    with Pair Inr g show ?thesis by (simp add: query_def)
  qed
qed

lemma dict_with_score:
  "(dict_of_chunk c)(''similarity_score'' \<mapsto> PyFloat d) = dict_of_retrieved (with_score c d)"
  by (simp add: dict_of_chunk_def dict_of_retrieved_def with_score_def)

lemma py_index_map:
  "py_index (map f xs) i = (case py_index xs i of Inl e \<Rightarrow> Inl e | Inr x \<Rightarrow> Inr (f x))"
  by (auto simp: py_index_def)

lemma filter_loop_refs_refines:
  assumes "\<forall>r \<in> set refs. r < length h"
      and "map ((!) h) refs = map dict_of_chunk cs"
      and "\<forall>a \<in> set acc. a < length h"
      and "map ((!) h) acc = map dict_of_retrieved racc"
  shows "case filter_loop cs thr racc pairs of
           Inl e \<Rightarrow> filter_loop_refs h refs thr acc pairs = Inl e
         | Inr rs \<Rightarrow> (\<exists>res h'. filter_loop_refs h refs thr acc pairs = Inr (res, h') \<and>
                        map ((!) h') res = map dict_of_retrieved rs)"
  using assms
proof (induction pairs arbitrary: h acc racc)
  case Nil
  then show ?case by simp
next
  case (Cons p pairs)
  obtain d idx where p: "p = (d, idx)" by (cases p)
  have len: "length refs = length cs"
    using Cons.prems(2) by (metis length_map)
  show ?case
  proof (cases "d < thr \<and> idx < int (length cs)")
    case False
    then have e1: "filter_loop cs thr racc ((d, idx) # pairs) = filter_loop cs thr racc pairs"
      by auto
    from False have e2: "filter_loop_refs h refs thr acc ((d, idx) # pairs)
        = filter_loop_refs h refs thr acc pairs"
      by (auto simp: len)
    from Cons.IH [OF Cons.prems] show ?thesis unfolding p by (simp only: e1 e2)
  next
    case True
    show ?thesis
    proof (cases "py_index refs idx")
      case (Inl e)
      have "py_index (map ((!) h) refs) idx = Inl e"
        using Inl by (simp add: py_index_map)
      then have "py_index cs idx = Inl e"
        by (simp add: Cons.prems(2) py_index_map split: sum.splits)
      with True have e1: "filter_loop cs thr racc ((d, idx) # pairs) = Inl e"
        by simp
      from True Inl have e2: "filter_loop_refs h refs thr acc ((d, idx) # pairs) = Inl e"
        by (simp add: len)
      show ?thesis unfolding p by (simp only: e1 e2 sum.case)
    next
      case (Inr r)
      have "py_index (map ((!) h) refs) idx = Inr (h ! r)"
        using Inr by (simp add: py_index_map)
      then obtain c where c: "py_index cs idx = Inr c" and hc: "h ! r = dict_of_chunk c"
        by (auto simp: Cons.prems(2) py_index_map split: sum.splits)
      let ?h2 = "(h @ [h ! r])[length h :=
                   ((h @ [h ! r]) ! length h)(''similarity_score'' \<mapsto> PyFloat d)]"
      have h2: "?h2 = h @ [dict_of_retrieved (with_score c d)]"
        by (simp add: hc dict_with_score)
      have nth: "?h2 ! a = h ! a" if "a < length h" for a
        using that by (simp add: h2 nth_append)
      have 1: "\<forall>r \<in> set refs. r < length ?h2"
        using Cons.prems(1) by (auto simp: h2)
      have "map ((!) ?h2) refs = map ((!) h) refs"
      proof (rule map_cong [OF refl])
        fix a assume "a \<in> set refs"
        with Cons.prems(1) have "a < length h" by simp
        then show "?h2 ! a = h ! a" by (rule nth)
      qed
      then have 2: "map ((!) ?h2) refs = map dict_of_chunk cs"
        by (simp only: Cons.prems(2))
      have 3: "\<forall>a \<in> set (acc @ [length h]). a < length ?h2"
        using Cons.prems(3) by (auto simp: h2)
      have "map ((!) ?h2) acc = map ((!) h) acc"
      proof (rule map_cong [OF refl])
        fix a assume "a \<in> set acc"
        with Cons.prems(3) have "a < length h" by simp
        then show "?h2 ! a = h ! a" by (rule nth)
      qed
      then have old: "map ((!) ?h2) acc = map dict_of_retrieved racc"
        by (simp only: Cons.prems(4))
      have new: "?h2 ! length h = dict_of_retrieved (with_score c d)"
        by (simp add: hc dict_with_score)
      have "map ((!) ?h2) (acc @ [length h]) = map ((!) ?h2) acc @ [?h2 ! length h]"
        by (simp only: map_append list.map)
      also have "\<dots> = map dict_of_retrieved racc @ [dict_of_retrieved (with_score c d)]"
        by (simp only: old new)
      also have "\<dots> = map dict_of_retrieved (racc @ [with_score c d])"
        by simp
      finally have 4: "map ((!) ?h2) (acc @ [length h])
                    = map dict_of_retrieved (racc @ [with_score c d])" .
      from True c have e1: "filter_loop cs thr racc ((d, idx) # pairs)
          = filter_loop cs thr (racc @ [with_score c d]) pairs"
        by simp
      from True Inr have e2: "filter_loop_refs h refs thr acc ((d, idx) # pairs)
          = filter_loop_refs ?h2 refs thr (acc @ [length h]) pairs"
        by (simp add: len Let_def)
      from Cons.IH [OF 1 2 3 4] show ?thesis unfolding p by (simp only: e1 e2)
    qed
  qed
qed

text \<open>
  Claim C10. Whatever they return, \<^verbatim>\<open>retrieve_relevant_chunks\<close> and \<^verbatim>\<open>query\<close> leave the
  index, the chunk records and the two files as they were. On the heap, where the store is
  a list of references to dictionaries that represent the chunk records, the loop of the
  retrieval behaves as the loop on records does: it raises the same exception, or it returns
  references to dictionaries that represent the retrieved chunks. These references are
  new: none of them is a reference of the store, the dictionaries of the store are as
  before, and overwriting a returned dictionary with anything leaves every dictionary of
  the store as it was.
\<close>

theorem read_only_operations_frame:
  "index (snd (retrieve_relevant_chunks env s q top_k threshold)) = index s \<and>
   chunks (snd (retrieve_relevant_chunks env s q top_k threshold)) = chunks s \<and>
   index_file (snd (retrieve_relevant_chunks env s q top_k threshold)) = index_file s \<and>
   chunks_file (snd (retrieve_relevant_chunks env s q top_k threshold)) = chunks_file s \<and>
   index (snd (query env s q)) = index s \<and>
   chunks (snd (query env s q)) = chunks s \<and>
   index_file (snd (query env s q)) = index_file s \<and>
   chunks_file (snd (query env s q)) = chunks_file s \<and>
   ((\<forall>r \<in> set refs. r < length h) \<and> map ((!) h) refs = map dict_of_chunk cs \<longrightarrow>
      (case filter_loop cs threshold [] pairs of
         Inl e \<Rightarrow> filter_loop_refs h refs threshold [] pairs = Inl e
       | Inr rs \<Rightarrow>
           (\<exists>res h'. filter_loop_refs h refs threshold [] pairs = Inr (res, h') \<and>
              map ((!) h') res = map dict_of_retrieved rs \<and>
              set res \<inter> set refs = {} \<and>
              (\<forall>r \<in> set refs. h' ! r = h ! r) \<and>
              (\<forall>a \<in> set res. \<forall>d. \<forall>r \<in> set refs. (h'[a := d]) ! r = h ! r))))"
proof -
  have heap: "case filter_loop cs threshold [] pairs of
         Inl e \<Rightarrow> filter_loop_refs h refs threshold [] pairs = Inl e
       | Inr rs \<Rightarrow>
           (\<exists>res h'. filter_loop_refs h refs threshold [] pairs = Inr (res, h') \<and>
              map ((!) h') res = map dict_of_retrieved rs \<and>
              set res \<inter> set refs = {} \<and>
              (\<forall>r \<in> set refs. h' ! r = h ! r) \<and>
              (\<forall>a \<in> set res. \<forall>d. \<forall>r \<in> set refs. (h'[a := d]) ! r = h ! r))"
    if v: "\<forall>r \<in> set refs. r < length h" and m: "map ((!) h) refs = map dict_of_chunk cs"
  proof (cases "filter_loop cs threshold [] pairs")
    case (Inl e)
    with filter_loop_refs_refines [OF v m, of "[]" "[]" threshold pairs] show ?thesis by simp
  next
    case (Inr rs)
    with filter_loop_refs_refines [OF v m, of "[]" "[]" threshold pairs] obtain res h' where
      run: "filter_loop_refs h refs threshold [] pairs = Inr (res, h')"
      and rd: "map ((!) h') res = map dict_of_retrieved rs"
      by auto
    from filter_loop_refs_store_untouched [OF run v] run rd Inr show ?thesis by simp
  qed
  from retrieve_frame [of env s q top_k threshold] query_frame [of env s q] heap
  show ?thesis by blast
qed

lemma filter_loop_demo:
  "filter_loop [chunk_a] (3 / 2) [] [(1 / 5, 0), (FLT_MAX, - 1)] = Inr [with_score chunk_a (1 / 5)]"
  by (simp add: FLT_MAX_def py_index_def)

lemma filter_loop_refs_demo:
  "filter_loop_refs [dict_of_chunk chunk_a] [0] (3 / 2) [] [(1 / 5, 0), (FLT_MAX, - 1)] =
     Inr ([1], [dict_of_chunk chunk_a,
                (dict_of_chunk chunk_a)(''similarity_score'' \<mapsto> PyFloat (1 / 5))])"
  by (simp add: FLT_MAX_def py_index_def)

text \<open>
  Claim C10 at the store of one chunk: the retrieval returns the reference 1 to a new
  dictionary, and emptying that dictionary leaves the stored one at reference 0 intact.
\<close>

theorem read_only_operations_frame_witness:
  "map ((!) [dict_of_chunk chunk_a]) [0] = map dict_of_chunk [chunk_a] \<and>
   chunks (snd (query demo_env one_chunk_state ''What is alpha?'')) = [chunk_a] \<and>
   index (snd (query demo_env one_chunk_state ''What is alpha?'')) = [[10]] \<and>
   (\<exists>res h'.
      filter_loop_refs [dict_of_chunk chunk_a] [0] (3 / 2) [] [(1 / 5, 0), (FLT_MAX, - 1)]
        = Inr (res, h') \<and>
      res = [1] \<and>
      map ((!) h') res = [dict_of_retrieved (with_score chunk_a (1 / 5))] \<and>
      set res \<inter> set [0] = {} \<and>
      (h'[1 := Map.empty]) ! 0 = dict_of_chunk chunk_a)"
proof -
  have v: "\<forall>r \<in> set [0::nat]. r < length [dict_of_chunk chunk_a]" by simp
  have m: "map ((!) [dict_of_chunk chunk_a]) [0] = map dict_of_chunk [chunk_a]" by simp
  have st: "chunks one_chunk_state = [chunk_a]" "index one_chunk_state = [[10]]"
    by (simp_all add: one_chunk_state_def)
  from read_only_operations_frame [of demo_env one_chunk_state "''What is alpha?''" 5 "3 / 2" "[0]"
      "[dict_of_chunk chunk_a]" "[chunk_a]" "[(1 / 5, 0), (FLT_MAX, - 1)]"] v m
  have fr: "chunks (snd (query demo_env one_chunk_state ''What is alpha?'')) = [chunk_a]"
      "index (snd (query demo_env one_chunk_state ''What is alpha?'')) = [[10]]"
    and hp: "\<exists>res h'.
      filter_loop_refs [dict_of_chunk chunk_a] [0] (3 / 2) [] [(1 / 5, 0), (FLT_MAX, - 1)]
        = Inr (res, h') \<and>
      map ((!) h') res = map dict_of_retrieved [with_score chunk_a (1 / 5)] \<and>
      set res \<inter> set [0] = {} \<and>
      (\<forall>r \<in> set [0]. h' ! r = [dict_of_chunk chunk_a] ! r) \<and>
      (\<forall>a \<in> set res. \<forall>d. \<forall>r \<in> set [0]. (h'[a := d]) ! r = [dict_of_chunk chunk_a] ! r)"
    by (simp_all only: st filter_loop_demo sum.case) 
  from hp obtain res h' where
    run: "filter_loop_refs [dict_of_chunk chunk_a] [0] (3 / 2) [] [(1 / 5, 0), (FLT_MAX, - 1)]
        = Inr (res, h')"
    and rd: "map ((!) h') res = map dict_of_retrieved [with_score chunk_a (1 / 5)]"
    and dj: "set res \<inter> set [0] = {}"
    and up: "\<forall>a \<in> set res. \<forall>d. \<forall>r \<in> set [0]. (h'[a := d]) ! r = [dict_of_chunk chunk_a] ! r"
    by blast
  from run [unfolded filter_loop_refs_demo] have r1: "res = [1]" by simp
  from up r1 have "(h'[1 := Map.empty]) ! 0 = dict_of_chunk chunk_a" by simp
  with run r1 rd dj m fr show ?thesis by (intro conjI exI [of _ res] exI [of _ h']) simp_all
qed

text \<open>
  Claim C2 fails on the code. The loop tests \<^verbatim>\<open>idx < len(self.chunks)\<close> only, and a negative
  index passes this test; \<^verbatim>\<open>self.chunks[-1]\<close> is then the last chunk record. A flat index
  holding one vector answers a search for five neighbours with one neighbour and four
  missing ones, of index \<open>-1\<close> and distance \<^const>\<open>FLT_MAX\<close>. With a threshold above that
  distance the retrieval emits five results on a store of one chunk: the four missing
  neighbours are emitted as copies of the last chunk, although \<open>-1\<close> is not a valid
  position and \<open>min(top_k, n) = 1\<close>.
\<close>

theorem retrieve_negative_index_emitted:
  "length (chunks one_chunk_state) = 1 \<and>
   fst (retrieve_relevant_chunks demo_env one_chunk_state ''What is alpha?'' 5 (10 ^ 39)) =
     Inr [with_score chunk_a (1 / 5), with_score chunk_a FLT_MAX, with_score chunk_a FLT_MAX,
          with_score chunk_a FLT_MAX, with_score chunk_a FLT_MAX]"
  by (simp add: retrieve_relevant_chunks_def demo_env_def one_chunk_state_def
      log_call_def FLT_MAX_def py_index_def)

lemma py_index_nonneg:
  "0 \<le> i \<Longrightarrow> i < int (length xs) \<Longrightarrow> py_index xs i = Inr (xs ! nat i)"
  by (simp add: py_index_def)

text \<open>
  When no pair below the threshold has a negative index, the loop emits exactly the pairs
  below the threshold whose index is a position of the store, in the order of the search.
\<close>

lemma filter_loop_nonnegative_indices:
  assumes "\<forall>(d, i) \<in> set pairs. d < thr \<longrightarrow> 0 \<le> i"
  shows "filter_loop cs thr acc pairs =
     Inr (acc @ map (\<lambda>(d, i). with_score (cs ! nat i) d)
                  (filter (\<lambda>(d, i). d < thr \<and> 0 \<le> i \<and> i < int (length cs)) pairs))"
  using assms
proof (induction pairs arbitrary: acc)
  case Nil
  then show ?case by simp
next
  case (Cons p pairs)
  obtain d i where p: "p = (d, i)" by (cases p)
  from Cons.prems have rest: "\<forall>(d, i) \<in> set pairs. d < thr \<longrightarrow> 0 \<le> i" by simp
  show ?case
  proof (cases "d < thr \<and> i < int (length cs)")
    case True
    with Cons.prems p have "0 \<le> i" by simp
    with True Cons.IH [OF rest] show ?thesis unfolding p by (simp add: py_index_nonneg)
  next
    case False
    with Cons.IH [OF rest] show ?thesis unfolding p by auto
  qed
qed

end
